theory Spec2Isabelle
  imports Main "HOL-Library.Word"
begin

section \<open>The bootz service: data model\<close>

text \<open>
  The embedding follows \<^verbatim>\<open>server/service/service.go\<close>. The protobuf messages
  the service reads are records holding the fields the service touches. A Go
  pointer that may be nil is an \<open>option\<close>; a pair \<open>(value, error)\<close> returned by a Go
  function is a pair of options, since Go allows all four combinations. A
  repeated message field is a Go slice of pointers, so its entries are options
  too: a caller inside the process can hand over a nil entry.
  Record fields are global constants in HOL, so a field name that occurs in
  several Go structs carries a prefix (\<open>el_\<close>, \<open>cd_\<close>, \<open>cc_\<close>, \<open>ccs_\<close>).
\<close>

datatype BootMode = BOOT_MODE_UNSPECIFIED | BOOT_MODE_INSECURE | BOOT_MODE_SECURE

datatype ControlCardStatus =
  CONTROL_CARD_STATUS_UNSPECIFIED
| CONTROL_CARD_STATUS_NOT_INITIALIZED
| CONTROL_CARD_STATUS_INITIALIZED

record EntityLookup =
  el_Manufacturer :: string
  el_SerialNumber :: string

record ChassisEntity =
  BootMode :: BootMode

record ControlCard =
  cc_SerialNumber :: string
  cc_PartNumber :: string

record ChassisDescriptor =
  cd_Manufacturer :: string
  cd_SerialNumber :: string
  ControlCards :: "ControlCard option list"

record ControlCardState =
  ccs_SerialNumber :: string
  ccs_Status :: ControlCardStatus

record GetBootstrapDataRequest =
  ChassisDescriptor :: "ChassisDescriptor option"
  ControlCardState :: "ControlCardState option"
  Nonce :: string

record ReportStatusRequest =
  States :: "ControlCardState option list"

text \<open>
  The per-card payload is opaque to the service: it is stored and forwarded,
  never inspected.
\<close>

record BootstrapDataResponse =
  SerialNum :: string
  BootPasswordHash :: string

record BootstrapDataSigned =
  Responses :: "BootstrapDataResponse option list"
  sr_Nonce :: string

record GetBootstrapDataResponse =
  SignedResponse :: "BootstrapDataSigned option"
  OwnershipVoucher :: string
  OwnershipCertificate :: string
  ResponseSignature :: string

subsection \<open>Errors\<close>

text \<open>
  \<open>Status c f args\<close> is \<^verbatim>\<open>status.Errorf(c, f, args...)\<close> and \<open>Errorf f args\<close> is
  \<^verbatim>\<open>fmt.Errorf(f, args...)\<close>; the message is kept as the format string with its
  arguments, unrendered. \<open>ErrList e es\<close> is the error that \<^verbatim>\<open>errlist.List.Err\<close>
  returns: that method returns nil for an empty list, so the aggregate always
  holds a first error.
\<close>

datatype Code = InvalidArgument | NotFound | Internal | Unimplemented | Unknown

datatype fmtarg =
  ArgString string
| ArgDescriptor "ChassisDescriptor option"
| ArgError error
and error =
  Status Code string "fmtarg list"
| Errorf string "fmtarg list"
| ErrList error "error list"

text \<open>
  \<^verbatim>\<open>errlist.List\<close>: \<open>Add\<close> ignores nil, adds the members of an aggregate one by
  one and any other error as it is; \<open>Err\<close> is nil on the empty list.
\<close>

fun errors_of :: "error \<Rightarrow> error list" where
  "errors_of (ErrList e es) = e # es"
| "errors_of e = [e]"

definition Add :: "error list \<Rightarrow> error option \<Rightarrow> error list" where
  "Add errs err = (case err of None \<Rightarrow> errs | Some e \<Rightarrow> errs @ errors_of e)"

definition Err_of :: "error list \<Rightarrow> error option" where
  "Err_of errs = (case errs of [] \<Rightarrow> None | e # es \<Rightarrow> Some (ErrList e es))"

subsection \<open>The ledger\<close>

text \<open>
  A request reaches the service as a pointer; \<open>failedRequest\<close> is keyed by that
  pointer and a boot log stores it. A pointer is modelled as its address
  together with the request it points to, which the service never mutates.
\<close>

type_synonym RequestPtr = "nat \<times> GetBootstrapDataRequest"

record bootLog =
  bl_BootMode :: BootMode
  StartTimeStamp :: "64 word"
  EndTimeStamp :: "64 word"
  Status_hist :: "ControlCardStatus list"
  LastStatus :: ControlCardStatus
  BootResponse :: "BootstrapDataResponse option"
  BootRequest :: "RequestPtr option"
  Err :: "error option"

text \<open>The zero value \<^verbatim>\<open>bootLog{}\<close>.\<close>

definition zero_bootLog :: bootLog where
  "zero_bootLog =
     \<lparr>bl_BootMode = BOOT_MODE_UNSPECIFIED, StartTimeStamp = 0, EndTimeStamp = 0,
      Status_hist = [], LastStatus = CONTROL_CARD_STATUS_UNSPECIFIED,
      BootResponse = None, BootRequest = None, Err = None\<rparr>"

text \<open>
  Every pointer stored in \<open>activeBoots\<close> comes from a fresh \<^verbatim>\<open>&bootLog{...}\<close>, so
  no two keys share a log and the map holds the logs by value. A key that is
  absent reads as the nil pointer.
\<close>

record Service =
  connectedChassis :: "EntityLookup \<rightharpoonup> bool"
  activeBoots :: "string \<rightharpoonup> bootLog"
  failedRequest :: "nat \<rightharpoonup> error"

text \<open>
  The entity manager is an interface: a record of its four methods. Its own
  state, and everything else outside the service, is an abstract world \<open>'w\<close>
  that each call may change. \<open>Sign\<close> receives the response by pointer and may
  fill it in, so it returns the response as it left it. The lookup is only read
  by the entity manager.
\<close>

record 'w EntityManager =
  em_ResolveChassis :: "EntityLookup \<Rightarrow> string \<Rightarrow> 'w \<Rightarrow> (ChassisEntity option \<times> error option) \<times> 'w"
  em_GetBootstrapData ::
    "EntityLookup \<Rightarrow> ControlCard option \<Rightarrow> 'w \<Rightarrow> (BootstrapDataResponse option \<times> error option) \<times> 'w"
  em_SetStatus :: "ReportStatusRequest \<Rightarrow> 'w \<Rightarrow> error option \<times> 'w"
  em_Sign ::
    "GetBootstrapDataResponse \<Rightarrow> EntityLookup \<Rightarrow> string \<Rightarrow> 'w \<Rightarrow> (GetBootstrapDataResponse \<times> error option) \<times> 'w"

text \<open>
  \<^verbatim>\<open>time.Now().UnixMilli()\<close> reads the world; \<^verbatim>\<open>uint64(...)\<close> of the signed
  result is its value modulo \<open>2 ^ 64\<close>.
\<close>

type_synonym 'w clock = "'w \<Rightarrow> int \<times> 'w"

definition uint64 :: "int \<Rightarrow> 64 word" where
  "uint64 i = word_of_int i"

text \<open>
  What a call gives back: the Go pair \<open>(response, error)\<close>, or a panic where the
  code dereferences a nil pointer.
\<close>

datatype 'a ret = Ret "'a option" "error option" | Panic

section \<open>The generated getters\<close>

text \<open>
  The protobuf getters are nil-safe: on a nil receiver they return the zero
  value of the field. \<open>GetSerialNumber\<close> and \<open>GetStatus\<close> are the getters of a
  control-card state, \<open>cc_GetSerialNumber\<close> is \<^verbatim>\<open>GetSerialNumber\<close> of a control card.
\<close>

definition GetSerialNumber :: "ControlCardState option \<Rightarrow> string" where
  "GetSerialNumber st = (case st of None \<Rightarrow> [] | Some x \<Rightarrow> ccs_SerialNumber x)"

definition GetStatus :: "ControlCardState option \<Rightarrow> ControlCardStatus" where
  "GetStatus st = (case st of None \<Rightarrow> CONTROL_CARD_STATUS_UNSPECIFIED | Some x \<Rightarrow> ccs_Status x)"

definition cc_GetSerialNumber :: "ControlCard option \<Rightarrow> string" where
  "cc_GetSerialNumber v = (case v of None \<Rightarrow> [] | Some x \<Rightarrow> cc_SerialNumber x)"

section \<open>ReportStatus\<close>

text \<open>
  One iteration of the loop over the reported states (lines 206 to 210). Line
  206 assigns through \<^verbatim>\<open>s.activeBoots[stat.GetSerialNumber()]\<close>: for a missing
  key that is a nil pointer and the assignment panics. Line 207 reads
  \<^verbatim>\<open>stat.SerialNumber\<close> without the getter and panics on a nil entry, after line
  206 has written the last status. The result says whether the iteration ran
  to its end, next to the ledger and the world as it left them.
\<close>

definition applyState ::
  "'w clock \<Rightarrow> ControlCardState option \<Rightarrow> Service \<times> 'w \<Rightarrow> bool \<times> Service \<times> 'w" where
  "applyState now stat sw =
     (let (s, w) = sw in
      case activeBoots s (GetSerialNumber stat) of
        None \<Rightarrow> (False, s, w)
      | Some b \<Rightarrow>
          let b1 = b\<lparr>LastStatus := GetStatus stat\<rparr>
          in (case stat of
                None \<Rightarrow> (False, s\<lparr>activeBoots := (activeBoots s)(GetSerialNumber stat \<mapsto> b1)\<rparr>, w)
              | Some st \<Rightarrow>
                  let b2 = b1\<lparr>Status_hist := Status_hist b1 @ [GetStatus stat]\<rparr>
                  in if GetStatus stat = CONTROL_CARD_STATUS_INITIALIZED
                     then let (t, w') = now w
                          in (True, s\<lparr>activeBoots := (activeBoots s)(ccs_SerialNumber st \<mapsto>
                                      b2\<lparr>EndTimeStamp := uint64 t\<rparr>)\<rparr>, w')
                     else (True, s\<lparr>activeBoots := (activeBoots s)(ccs_SerialNumber st \<mapsto> b2)\<rparr>, w)))"

text \<open>The loop: a panic ends it where it stands.\<close>

fun applyStates ::
  "'w clock \<Rightarrow> ControlCardState option list \<Rightarrow> Service \<times> 'w \<Rightarrow> bool \<times> Service \<times> 'w" where
  "applyStates now [] sw = (True, sw)"
| "applyStates now (stat # stats) sw =
     (case applyState now stat sw of
        (False, sw') \<Rightarrow> (False, sw')
      | (True, sw') \<Rightarrow> applyStates now stats sw')"

definition ReportStatus ::
  "'w EntityManager \<Rightarrow> 'w clock \<Rightarrow> ReportStatusRequest \<Rightarrow> Service \<times> 'w \<Rightarrow> unit ret \<times> Service \<times> 'w" where
  "ReportStatus em now req sw =
     (let (s, w) = sw;
          (err, w1) = em_SetStatus em req w
      in if err \<noteq> None
         then (case applyStates now (States req) (s, w1) of
                 (True, sw') \<Rightarrow> (Ret (Some ()) None, sw')
               | (False, sw') \<Rightarrow> (Panic, sw'))
         else (Ret None err, s, w1))"

section \<open>The accessors\<close>

definition IsChassisConnected :: "Service \<Rightarrow> EntityLookup \<Rightarrow> bool" where
  "IsChassisConnected s chassis =
     (case connectedChassis s chassis of None \<Rightarrow> False | Some b \<Rightarrow> b)"

definition ResetStatus :: "Service \<Rightarrow> EntityLookup \<Rightarrow> Service" where
  "ResetStatus s chassis =
     s\<lparr>connectedChassis := Map.empty, failedRequest := Map.empty, activeBoots := Map.empty\<rparr>"

definition GetBootStatus :: "Service \<Rightarrow> string \<Rightarrow> bootLog \<times> error option" where
  "GetBootStatus s serial =
     (case activeBoots s serial of
        None \<Rightarrow> (zero_bootLog,
                 Some (Errorf ''no boot log found for controller card %s'' [ArgString serial]))
      | Some b \<Rightarrow> (b, None))"

definition New :: Service where
  "New = \<lparr>connectedChassis = Map.empty, activeBoots = Map.empty, failedRequest = Map.empty\<rparr>"

section \<open>GetBootstrapData\<close>

text \<open>
  The loop over the control cards (lines 144 to 159), carrying the ledger, the
  error list, the responses and the world. Each entry gets a fresh log first,
  under the serial its getter gives; the fetch follows, with the entry as it
  is; an error is written to the log and added to the list, and the loop goes
  on to the next card. The log line of the error branch reads
  \<^verbatim>\<open>v.SerialNumber\<close> without the getter and panics on a nil entry. The first
  component of the result says whether the loop ran to its end.
\<close>

fun fetchCards ::
  "'w EntityManager \<Rightarrow> 'w clock \<Rightarrow> RequestPtr \<Rightarrow> EntityLookup \<Rightarrow> ChassisEntity \<Rightarrow>
   ControlCard option list \<Rightarrow> Service \<times> error list \<times> BootstrapDataResponse option list \<times> 'w \<Rightarrow>
   bool \<times> Service \<times> error list \<times> BootstrapDataResponse option list \<times> 'w" where
  "fetchCards em now req lookup chassis [] acc = (True, acc)"
| "fetchCards em now req lookup chassis (v # vs) acc =
     (let (s, errs, responses, w) = acc;
          (t, w1) = now w;
          b0 = \<lparr>bl_BootMode = BootMode chassis, StartTimeStamp = uint64 t, EndTimeStamp = 0,
                Status_hist = [], LastStatus = CONTROL_CARD_STATUS_UNSPECIFIED,
                BootResponse = None, BootRequest = Some req, Err = None\<rparr>;
          ((bootdata, err), w2) = em_GetBootstrapData em lookup v w1;
          b1 = (if err \<noteq> None then b0\<lparr>Err := err\<rparr> else b0);
          errs1 = (if err \<noteq> None then Add errs err else errs)
      in if err \<noteq> None \<and> v = None
         then (False, s\<lparr>activeBoots := (activeBoots s)(cc_GetSerialNumber v \<mapsto> b1)\<rparr>,
               errs1, responses, w2)
         else
           let b2 = b1\<lparr>BootResponse := bootdata\<rparr>
           in fetchCards em now req lookup chassis vs
                (s\<lparr>activeBoots := (activeBoots s)(cc_GetSerialNumber v \<mapsto> b2)\<rparr>,
                 errs1, responses @ [bootdata], w2))"

text \<open>
  The whole call runs under the service's mutex, so it is one step on the
  ledger. \<^verbatim>\<open>req.ChassisDescriptor.ControlCards\<close> reads through the descriptor
  pointer and panics when the request has none; \<^verbatim>\<open>chassis.BootMode\<close> panics
  when the entity manager returned neither a chassis nor an error; a panic in
  the loop ends the call.
\<close>

definition GetBootstrapData ::
  "'w EntityManager \<Rightarrow> 'w clock \<Rightarrow> RequestPtr \<Rightarrow> Service \<times> 'w \<Rightarrow>
   GetBootstrapDataResponse ret \<times> Service \<times> 'w" where
  "GetBootstrapData em now req sw =
     (let (s, w) = sw in
      case ChassisDescriptor (snd req) of
        None \<Rightarrow> (Panic, s, w)
      | Some cd \<Rightarrow>
          if length (ControlCards cd) = 0
          then (Ret None (Some (Status InvalidArgument
                   ''request must include at least one control card'' [])),
                s\<lparr>failedRequest := (failedRequest s)(fst req \<mapsto> Status InvalidArgument
                   ''request must include at least one control card'' [])\<rparr>, w)
          else
            let fixedChasis = (if length (ControlCards cd) \<ge> 1 then False else True);
                ccSerial = (if length (ControlCards cd) \<ge> 1
                            then cc_GetSerialNumber (ControlCards cd ! 0) else []);
                lookup = \<lparr>el_Manufacturer = cd_Manufacturer cd,
                          el_SerialNumber = cd_SerialNumber cd\<rparr>;
                ((chassis, err), w1) = em_ResolveChassis em lookup ccSerial w
            in (case err of
                 Some e \<Rightarrow>
                   (Ret None (Some (Status InvalidArgument
                      ''failed to resolve chassis to inventory %+v, err: %v''
                      [ArgDescriptor (Some cd), ArgError e])),
                    s\<lparr>failedRequest := (failedRequest s)(fst req \<mapsto> Status InvalidArgument
                      ''failed to resolve chassis to inventory %+v, err: %v''
                      [ArgDescriptor (Some cd), ArgError e])\<rparr>, w1)
               | None \<Rightarrow>
                   let s1 = s\<lparr>connectedChassis := (connectedChassis s)(lookup \<mapsto> True)\<rparr>
                   in (case chassis of
                        None \<Rightarrow> (Panic, s1, w1)
                      | Some ch \<Rightarrow>
                          if BootMode ch = BOOT_MODE_SECURE \<and> Nonce (snd req) = []
                          then (Ret None (Some (Status InvalidArgument
                                  ''chassis requires secure boot only'' [])), s1, w1)
                          else
                            let (ok, s2, errs, responses, w2) =
                                  fetchCards em now req lookup ch (ControlCards cd) (s1, [], [], w1);
                                (errs3, responses3, w3) =
                                  (if fixedChasis
                                   then let ((bootdata, err), w') = em_GetBootstrapData em lookup None w2
                                        in ((if err \<noteq> None then Add errs err else errs),
                                            responses @ [bootdata], w')
                                   else (errs, responses, w2))
                            in if \<not> ok then (Panic, s2, w2) else
                               (case Err_of errs3 of
                                 Some e \<Rightarrow> (Ret None (Some e), s2, w3)
                               | None \<Rightarrow>
                                   let resp = \<lparr>SignedResponse =
                                                 Some \<lparr>Responses = responses3, sr_Nonce = []\<rparr>,
                                               OwnershipVoucher = [], OwnershipCertificate = [],
                                               ResponseSignature = []\<rparr>
                                   in if Nonce (snd req) \<noteq> []
                                      then
                                        let resp1 = resp\<lparr>SignedResponse :=
                                                      Some \<lparr>Responses = responses3,
                                                            sr_Nonce = Nonce (snd req)\<rparr>\<rparr>;
                                            ((resp2, serr), w4) =
                                              em_Sign em resp1 lookup
                                                (GetSerialNumber (ControlCardState (snd req))) w3
                                        in if serr \<noteq> None
                                           then (Ret None (Some (Status Internal
                                                   ''failed to sign bootz response'' [])), s2, w4)
                                           else (Ret (Some resp2) None, s2, w4)
                                      else (Ret (Some resp) None, s2, w3)))))"

text \<open>The fold of the gRPC library's \<^verbatim>\<open>status.Code\<close> on this error type.\<close>

fun code_of :: "error \<Rightarrow> Code" where
  "code_of (Status c f args) = c"
| "code_of e = Unknown"

text \<open>Whether an error slot holds a status error of the given code.\<close>

definition is_code :: "Code \<Rightarrow> error option \<Rightarrow> bool" where
  "is_code c err = (case err of None \<Rightarrow> False | Some e \<Rightarrow> code_of e = c)"

section \<open>What a report does to a boot log\<close>

text \<open>The statuses a report carries for one serial, in the order reported.\<close>

definition statuses_for :: "string \<Rightarrow> ControlCardState list \<Rightarrow> ControlCardStatus list" where
  "statuses_for k stats = map ccs_Status (filter (\<lambda>st. ccs_SerialNumber st = k) stats)"

text \<open>
  The clock is read once for every state that reports the terminal status:
  \<open>readings\<close> counts them, and \<open>after_readings now n w\<close> is the world after \<open>n\<close>
  readings from \<open>w\<close>.
\<close>

definition readings :: "ControlCardState list \<Rightarrow> nat" where
  "readings stats =
     length (filter (\<lambda>st. ccs_Status st = CONTROL_CARD_STATUS_INITIALIZED) stats)"

definition after_readings :: "'w clock \<Rightarrow> nat \<Rightarrow> 'w \<Rightarrow> 'w" where
  "after_readings now n w = ((\<lambda>x. snd (now x)) ^^ n) w"

text \<open>The states reported before the last one that reports the terminal status for \<open>k\<close>.\<close>

definition before_last_initialized :: "string \<Rightarrow> ControlCardState list \<Rightarrow> ControlCardState list" where
  "before_last_initialized k stats =
     rev (tl (dropWhile
       (\<lambda>st. \<not> (ccs_SerialNumber st = k \<and> ccs_Status st = CONTROL_CARD_STATUS_INITIALIZED))
       (rev stats)))"

text \<open>
  How the boot log of serial \<open>k\<close> stands after the states \<open>stats\<close> were reported
  from the world \<open>w\<close>: the history grows by the statuses reported for \<open>k\<close>, the
  last status is the last of them, the end timestamp is the clock's reading at
  the last terminal status reported for \<open>k\<close>, modulo \<open>2 ^ 64\<close>, and is untouched
  when there is none, and no other field changes.
\<close>

definition reported ::
  "'w clock \<Rightarrow> 'w \<Rightarrow> ControlCardState list \<Rightarrow> string \<Rightarrow> bootLog \<Rightarrow> bootLog \<Rightarrow> bool" where
  "reported now w stats k b b' \<longleftrightarrow>
     Status_hist b' = Status_hist b @ statuses_for k stats \<and>
     LastStatus b' = last (LastStatus b # statuses_for k stats) \<and>
     EndTimeStamp b' =
       (if CONTROL_CARD_STATUS_INITIALIZED \<in> set (statuses_for k stats)
        then word_of_int
               (fst (now (after_readings now (readings (before_last_initialized k stats)) w)))
        else EndTimeStamp b) \<and>
     bl_BootMode b' = bl_BootMode b \<and> StartTimeStamp b' = StartTimeStamp b \<and>
     BootResponse b' = BootResponse b \<and> BootRequest b' = BootRequest b \<and> Err b' = Err b"

text \<open>A signer that leaves the response as it is and reports no error.\<close>

definition noSign ::
  "GetBootstrapDataResponse \<Rightarrow> EntityLookup \<Rightarrow> string \<Rightarrow> 'w \<Rightarrow>
   (GetBootstrapDataResponse \<times> error option) \<times> 'w" where
  "noSign resp lookup serial w = ((resp, None), w)"

section \<open>A concrete entity manager\<close>

text \<open>
  The inventory of the spec's scenarios: chassis Cisco/123 with the control
  cards 123A and 123B, in a given boot mode. The world is a counter of the calls
  made to the entity manager and to the clock.
\<close>

definition known_card :: "string \<Rightarrow> bool" where
  "known_card serial = (serial = ''123A'' \<or> serial = ''123B'')"

definition demo_em :: "BootMode \<Rightarrow> nat EntityManager" where
  "demo_em mode =
     \<lparr>em_ResolveChassis = (\<lambda>lookup ccSerial w.
        (if lookup = \<lparr>el_Manufacturer = ''Cisco'', el_SerialNumber = ''123''\<rparr>
         then (Some \<lparr>BootMode = mode\<rparr>, None)
         else (None, Some (Status NotFound ''could not resolve chassis'' [])), Suc w)),
      em_GetBootstrapData = (\<lambda>lookup card w.
        (case card of
           None \<Rightarrow> (Some \<lparr>SerialNum = el_SerialNumber lookup, BootPasswordHash = ''ABCD123''\<rparr>, None)
         | Some v \<Rightarrow>
             if known_card (cc_SerialNumber v)
             then (Some \<lparr>SerialNum = cc_SerialNumber v, BootPasswordHash = ''ABCD123''\<rparr>, None)
             else (None, Some (Status NotFound ''could not find control card'' [])), Suc w)),
      em_SetStatus = (\<lambda>req w.
        (if States req = []
         then Some (Status InvalidArgument ''no control card states provided'' [])
         else if list_all (\<lambda>st. known_card (GetSerialNumber st)) (States req) then None
         else Some (Status NotFound ''could not find control card'' []), Suc w)),
      em_Sign = (\<lambda>resp lookup serial w.
        (if SignedResponse resp = None
         then (resp, Some (Status InvalidArgument ''empty signed response'' []))
         else if known_card serial
         then (resp\<lparr>OwnershipVoucher := ''ov_'' @ serial, OwnershipCertificate := ''oc'',
                    ResponseSignature := ''c2lnbmVk''\<rparr>, None)
         else (resp, Some (Status NotFound ''could not find ownership voucher'' [])), Suc w))\<rparr>"

definition demo_now :: "nat clock" where
  "demo_now w = (1700000000000 + int w, Suc w)"

definition card :: "string \<Rightarrow> ControlCard option" where
  "card serial = Some \<lparr>cc_SerialNumber = serial, cc_PartNumber = serial\<rparr>"

definition demo_req :: "string list \<Rightarrow> string \<Rightarrow> RequestPtr" where
  "demo_req serials nonce =
     (1, \<lparr>ChassisDescriptor = Some \<lparr>cd_Manufacturer = ''Cisco'', cd_SerialNumber = ''123'',
                                    ControlCards = map card serials\<rparr>,
          ControlCardState = Some \<lparr>ccs_SerialNumber = ''123A'',
                                   ccs_Status = CONTROL_CARD_STATUS_NOT_INITIALIZED\<rparr>,
          Nonce = nonce\<rparr>)"

definition demo_log :: bootLog where
  "demo_log = zero_bootLog\<lparr>bl_BootMode := BOOT_MODE_INSECURE, StartTimeStamp := 1699999999000\<rparr>"

section \<open>The loop of ReportStatus\<close>

text \<open>
  One iteration on a state that is there and has a log; the loop over a list
  that ends with one more state; and what the loop does to every log when all
  states are there and have logs.
\<close>

lemma applyState_missing:
  "activeBoots s (GetSerialNumber stat) = None \<Longrightarrow> applyState now stat (s, w) = (False, s, w)"
  by (simp add: applyState_def)

lemma applyState_nil:
  "\<not> fst (applyState now None (s, w))"
  by (simp add: applyState_def split: option.splits)

lemma applyState_present:
  assumes "activeBoots s (ccs_SerialNumber st) = Some b"
  shows "applyState now (Some st) (s, w) =
           (True,
            s\<lparr>activeBoots := (activeBoots s)(ccs_SerialNumber st \<mapsto>
                 b\<lparr>LastStatus := ccs_Status st,
                   Status_hist := Status_hist b @ [ccs_Status st],
                   EndTimeStamp := (if ccs_Status st = CONTROL_CARD_STATUS_INITIALIZED
                                    then word_of_int (fst (now w)) else EndTimeStamp b)\<rparr>)\<rparr>,
            if ccs_Status st = CONTROL_CARD_STATUS_INITIALIZED then snd (now w) else w)"
  using assms
  by (cases "now w")
     (simp add: applyState_def GetSerialNumber_def GetStatus_def uint64_def)

lemma applyStates_append:
  "applyStates now (xs @ ys) sw =
     (case applyStates now xs sw of
        (True, sw') \<Rightarrow> applyStates now ys sw'
      | (False, sw') \<Rightarrow> (False, sw'))"
proof (induction xs arbitrary: sw)
  case Nil
  then show ?case by simp
next
  case (Cons x xs)
  obtain ok sw1 where step: "applyState now x sw = (ok, sw1)" by (cases "applyState now x sw")
  show ?case using step Cons.IH [of sw1] by (cases ok) simp_all
qed

lemma before_last_initialized_snoc:
  "before_last_initialized k (xs @ [x]) =
     (if ccs_SerialNumber x = k \<and> ccs_Status x = CONTROL_CARD_STATUS_INITIALIZED
      then xs else before_last_initialized k xs)"
  by (simp add: before_last_initialized_def)

lemma readings_snoc:
  "readings (xs @ [x]) =
     (if ccs_Status x = CONTROL_CARD_STATUS_INITIALIZED then Suc (readings xs) else readings xs)"
  by (simp add: readings_def)

lemma statuses_for_snoc:
  "statuses_for k (xs @ [x]) =
     (if ccs_SerialNumber x = k then statuses_for k xs @ [ccs_Status x] else statuses_for k xs)"
  by (simp add: statuses_for_def)

lemma reported_Nil: "reported now w [] k b b"
  by (simp add: reported_def statuses_for_def)

lemma reported_other:
  "reported now w xs k b b' \<Longrightarrow> ccs_SerialNumber x \<noteq> k \<Longrightarrow> reported now w (xs @ [x]) k b b'"
  by (simp add: reported_def statuses_for_snoc before_last_initialized_snoc)

lemma reported_same:
  assumes "reported now w xs k b b1" and "ccs_SerialNumber x = k"
  shows "reported now w (xs @ [x]) k b
           (b1\<lparr>LastStatus := ccs_Status x,
               Status_hist := Status_hist b1 @ [ccs_Status x],
               EndTimeStamp := (if ccs_Status x = CONTROL_CARD_STATUS_INITIALIZED
                                then word_of_int (fst (now (after_readings now (readings xs) w)))
                                else EndTimeStamp b1)\<rparr>)"
  using assms
  by (auto simp: reported_def statuses_for_snoc before_last_initialized_snoc)

lemma applyStates_ok:
  "\<forall>st\<in>set stats. activeBoots s (ccs_SerialNumber st) \<noteq> None \<Longrightarrow>
   \<exists>s'. applyStates now (map Some stats) (s, w) =
           (True, s', after_readings now (readings stats) w) \<and>
     connectedChassis s' = connectedChassis s \<and> failedRequest s' = failedRequest s \<and>
     (\<forall>k. (activeBoots s k = None \<longrightarrow> activeBoots s' k = None) \<and>
          (\<forall>b. activeBoots s k = Some b \<longrightarrow>
             (\<exists>b'. activeBoots s' k = Some b' \<and> reported now w stats k b b')))"
proof (induction stats rule: rev_induct)
  case Nil
  then show ?case by (simp add: reported_Nil readings_def after_readings_def)
next
  case (snoc x xs)
  let ?w1 = "after_readings now (readings xs) w"
  from snoc.prems have "\<forall>st\<in>set xs. activeBoots s (ccs_SerialNumber st) \<noteq> None" by simp
  from snoc.IH [OF this] obtain s1 where
    run1: "applyStates now (map Some xs) (s, w) = (True, s1, ?w1)" and
    cc1: "connectedChassis s1 = connectedChassis s" and
    fr1: "failedRequest s1 = failedRequest s" and
    ab1: "\<forall>k. (activeBoots s k = None \<longrightarrow> activeBoots s1 k = None) \<and>
          (\<forall>b. activeBoots s k = Some b \<longrightarrow>
             (\<exists>b'. activeBoots s1 k = Some b' \<and> reported now w xs k b b'))"
    by blast
  from snoc.prems obtain b where b: "activeBoots s (ccs_SerialNumber x) = Some b" by auto
  with ab1 obtain b1 where b1: "activeBoots s1 (ccs_SerialNumber x) = Some b1"
    and rep1: "reported now w xs (ccs_SerialNumber x) b b1" by blast
  let ?b2 = "b1\<lparr>LastStatus := ccs_Status x,
                 Status_hist := Status_hist b1 @ [ccs_Status x],
                 EndTimeStamp := (if ccs_Status x = CONTROL_CARD_STATUS_INITIALIZED
                                  then word_of_int (fst (now ?w1)) else EndTimeStamp b1)\<rparr>"
  let ?s2 = "s1\<lparr>activeBoots := (activeBoots s1)(ccs_SerialNumber x \<mapsto> ?b2)\<rparr>"
  let ?w2 = "if ccs_Status x = CONTROL_CARD_STATUS_INITIALIZED then snd (now ?w1) else ?w1"
  have step: "applyState now (Some x) (s1, ?w1) = (True, ?s2, ?w2)"
    by (rule applyState_present [OF b1])
  have w2: "?w2 = after_readings now (readings (xs @ [x])) w"
    by (simp add: readings_snoc after_readings_def)
  have run: "applyStates now (map Some (xs @ [x])) (s, w) =
               (True, ?s2, after_readings now (readings (xs @ [x])) w)"
    using run1 step w2 by (simp add: applyStates_append)
  have logs: "(activeBoots s k = None \<longrightarrow> activeBoots ?s2 k = None) \<and>
          (\<forall>b0. activeBoots s k = Some b0 \<longrightarrow>
             (\<exists>b'. activeBoots ?s2 k = Some b' \<and> reported now w (xs @ [x]) k b0 b'))" for k
  proof (cases "k = ccs_SerialNumber x")
    case True
    have "reported now w (xs @ [x]) k b ?b2"
      using reported_same [OF rep1 refl] True by simp
    with True b show ?thesis by simp
  next
    case False
    then have ne: "ccs_SerialNumber x \<noteq> k" by simp
    have "\<exists>b'. activeBoots ?s2 k = Some b' \<and> reported now w (xs @ [x]) k b0 b'"
      if "activeBoots s k = Some b0" for b0
    proof -
      from ab1 that obtain b' where "activeBoots s1 k = Some b'" "reported now w xs k b0 b'"
        by blast
      with ne show ?thesis by (simp add: reported_other)
    qed
    moreover have "activeBoots s k = None \<longrightarrow> activeBoots ?s2 k = None"
      using ab1 ne by simp
    ultimately show ?thesis by blast
  qed
  show ?case
    using run cc1 fr1 logs by (intro exI [of _ ?s2]) simp
qed

lemma applyState_dom:
  "applyState now x (s, w) = (ok, s', w') \<Longrightarrow>
   (activeBoots s' k = None) = (activeBoots s k = None)"
  by (cases "now w")
     (auto simp: applyState_def Let_def GetSerialNumber_def split: option.splits if_splits)

lemma applyStates_panic_iff:
  "fst (applyStates now xs (s, w)) \<longleftrightarrow>
   (\<forall>x\<in>set xs. x \<noteq> None \<and> activeBoots s (GetSerialNumber x) \<noteq> None)"
proof (induction xs arbitrary: s w)
  case Nil
  then show ?case by simp
next
  case (Cons x xs)
  obtain ok s1 w1 where step: "applyState now x (s, w) = (ok, s1, w1)"
    by (metis surj_pair)
  show ?case
  proof (cases ok)
    case False
    from step False have "x = None \<or> activeBoots s (GetSerialNumber x) = None"
      by (cases x; cases "activeBoots s (GetSerialNumber x)")
         (auto simp: applyState_present GetSerialNumber_def)
    with step False show ?thesis by auto
  next
    case True
    from step True have x: "x \<noteq> None \<and> activeBoots s (GetSerialNumber x) \<noteq> None"
      using applyState_nil [of now s w] applyState_missing [of s x now w] by (cases x) auto
    have "(\<forall>y\<in>set xs. y \<noteq> None \<and> activeBoots s1 (GetSerialNumber y) \<noteq> None) \<longleftrightarrow>
          (\<forall>y\<in>set xs. y \<noteq> None \<and> activeBoots s (GetSerialNumber y) \<noteq> None)"
      using applyState_dom [OF step] by simp
    with Cons.IH [of s1 w1] step True x show ?thesis by simp
  qed
qed

section \<open>Claims about ReportStatus\<close>

text \<open>
  C1, as stated: for every report for which \<open>SetStatus\<close> returns an error,
  ReportStatus applies the reported states and returns success. It fails for a
  report that names a serial with no boot log: on the empty ledger the call
  panics at the first assignment of the loop and returns nothing.
\<close>

theorem ReportStatus_missing_log_panics:
  "em_SetStatus (demo_em BOOT_MODE_INSECURE)
     \<lparr>States = [Some \<lparr>ccs_SerialNumber = ''123C'', ccs_Status = CONTROL_CARD_STATUS_INITIALIZED\<rparr>]\<rparr> 0
     = (Some (Status NotFound ''could not find control card'' []), 1) \<and>
   ReportStatus (demo_em BOOT_MODE_INSECURE) demo_now
     \<lparr>States = [Some \<lparr>ccs_SerialNumber = ''123C'', ccs_Status = CONTROL_CARD_STATUS_INITIALIZED\<rparr>]\<rparr>
     (New, 0) = (Panic, New, 1)"
  by (simp add: ReportStatus_def applyState_def demo_em_def known_card_def New_def
        GetSerialNumber_def)

text \<open>
  C1, amended: ReportStatus has the inverted contract. When \<open>SetStatus\<close> returns
  no error, ReportStatus returns that (nil) result in its error slot, with no
  response, and leaves the ledger alone. When \<open>SetStatus\<close> returns an error, and
  every reported state is there and names a serial that has a boot log,
  ReportStatus returns an empty response and no error; each log then has the
  statuses reported for its serial appended to its history in order and the
  last of them as its last status; its end timestamp is the reading the clock
  gave at the last terminal initialized status reported for the serial, and is
  unchanged when none was reported; the clock is read once per reported
  terminal status, and nothing else in the ledger changes.
\<close>

theorem ReportStatus_inverted_contract:
  assumes "em_SetStatus em req w = (err, w1)"
  shows "(err = None \<longrightarrow> ReportStatus em now req (s, w) = (Ret None err, s, w1)) \<and>
         (err \<noteq> None \<and> States req = map Some stats \<and>
          (\<forall>st\<in>set stats. activeBoots s (ccs_SerialNumber st) \<noteq> None) \<longrightarrow>
            (\<exists>s'. ReportStatus em now req (s, w) =
                    (Ret (Some ()) None, s', after_readings now (readings stats) w1) \<and>
               connectedChassis s' = connectedChassis s \<and> failedRequest s' = failedRequest s \<and>
               (\<forall>k. (activeBoots s k = None \<longrightarrow> activeBoots s' k = None) \<and>
                 (\<forall>b. activeBoots s k = Some b \<longrightarrow> (\<exists>b'. activeBoots s' k = Some b' \<and>
                    Status_hist b' = Status_hist b @ statuses_for k stats \<and>
                    LastStatus b' = last (LastStatus b # statuses_for k stats) \<and>
                    EndTimeStamp b' =
                      (if CONTROL_CARD_STATUS_INITIALIZED \<in> set (statuses_for k stats)
                       then word_of_int (fst (now (after_readings now
                              (readings (before_last_initialized k stats)) w1)))
                       else EndTimeStamp b) \<and>
                    bl_BootMode b' = bl_BootMode b \<and> StartTimeStamp b' = StartTimeStamp b \<and>
                    BootResponse b' = BootResponse b \<and> BootRequest b' = BootRequest b \<and>
                    Err b' = Err b)))))"
proof (intro conjI impI)
  assume "err = None"
  with assms show "ReportStatus em now req (s, w) = (Ret None err, s, w1)"
    by (simp add: ReportStatus_def)
next
  assume h: "err \<noteq> None \<and> States req = map Some stats \<and>
          (\<forall>st\<in>set stats. activeBoots s (ccs_SerialNumber st) \<noteq> None)"
  then have all: "\<forall>st\<in>set stats. activeBoots s (ccs_SerialNumber st) \<noteq> None"
    by simp
  from applyStates_ok [OF all, of now w1] obtain s' where
    run: "applyStates now (map Some stats) (s, w1) =
            (True, s', after_readings now (readings stats) w1)" and
    frame: "connectedChassis s' = connectedChassis s" "failedRequest s' = failedRequest s" and
    logs: "\<forall>k. (activeBoots s k = None \<longrightarrow> activeBoots s' k = None) \<and>
          (\<forall>b. activeBoots s k = Some b \<longrightarrow>
             (\<exists>b'. activeBoots s' k = Some b' \<and> reported now w1 stats k b b'))"
    by blast
  have "ReportStatus em now req (s, w) =
          (Ret (Some ()) None, s', after_readings now (readings stats) w1)"
    using assms h run by (simp add: ReportStatus_def)
  with frame logs show "\<exists>s'. ReportStatus em now req (s, w) =
                    (Ret (Some ()) None, s', after_readings now (readings stats) w1) \<and>
               connectedChassis s' = connectedChassis s \<and> failedRequest s' = failedRequest s \<and>
               (\<forall>k. (activeBoots s k = None \<longrightarrow> activeBoots s' k = None) \<and>
                 (\<forall>b. activeBoots s k = Some b \<longrightarrow> (\<exists>b'. activeBoots s' k = Some b' \<and>
                    Status_hist b' = Status_hist b @ statuses_for k stats \<and>
                    LastStatus b' = last (LastStatus b # statuses_for k stats) \<and>
                    EndTimeStamp b' =
                      (if CONTROL_CARD_STATUS_INITIALIZED \<in> set (statuses_for k stats)
                       then word_of_int (fst (now (after_readings now
                              (readings (before_last_initialized k stats)) w1)))
                       else EndTimeStamp b) \<and>
                    bl_BootMode b' = bl_BootMode b \<and> StartTimeStamp b' = StartTimeStamp b \<and>
                    BootResponse b' = BootResponse b \<and> BootRequest b' = BootRequest b \<and>
                    Err b' = Err b)))"
    unfolding reported_def by blast
qed

theorem ReportStatus_inverted_contract_witness:
  "em_SetStatus (demo_em BOOT_MODE_INSECURE)
     \<lparr>States = [Some \<lparr>ccs_SerialNumber = ''123A'', ccs_Status = CONTROL_CARD_STATUS_INITIALIZED\<rparr>]\<rparr> 0
     = (None, 1) \<and>
   ReportStatus (demo_em BOOT_MODE_INSECURE) demo_now
     \<lparr>States = [Some \<lparr>ccs_SerialNumber = ''123A'', ccs_Status = CONTROL_CARD_STATUS_INITIALIZED\<rparr>]\<rparr>
     (New\<lparr>activeBoots := [''123A'' \<mapsto> demo_log]\<rparr>, 0)
     = (Ret None None, New\<lparr>activeBoots := [''123A'' \<mapsto> demo_log]\<rparr>, 1) \<and>
   em_SetStatus (demo_em BOOT_MODE_INSECURE)
     \<lparr>States = [Some \<lparr>ccs_SerialNumber = ''123C'', ccs_Status = CONTROL_CARD_STATUS_NOT_INITIALIZED\<rparr>,
                Some \<lparr>ccs_SerialNumber = ''123C'', ccs_Status = CONTROL_CARD_STATUS_INITIALIZED\<rparr>]\<rparr> 0
     = (Some (Status NotFound ''could not find control card'' []), 1) \<and>
   (\<exists>s' b'. ReportStatus (demo_em BOOT_MODE_INSECURE) demo_now
     \<lparr>States = [Some \<lparr>ccs_SerialNumber = ''123C'', ccs_Status = CONTROL_CARD_STATUS_NOT_INITIALIZED\<rparr>,
                Some \<lparr>ccs_SerialNumber = ''123C'', ccs_Status = CONTROL_CARD_STATUS_INITIALIZED\<rparr>]\<rparr>
     (New\<lparr>activeBoots := [''123C'' \<mapsto> demo_log]\<rparr>, 0) = (Ret (Some ()) None, s', 2) \<and>
     activeBoots s' ''123C'' = Some b' \<and>
     Status_hist b' = [CONTROL_CARD_STATUS_NOT_INITIALIZED, CONTROL_CARD_STATUS_INITIALIZED] \<and>
     LastStatus b' = CONTROL_CARD_STATUS_INITIALIZED \<and>
     EndTimeStamp b' = 1700000000001 \<and>
     StartTimeStamp b' = 1699999999000)"
proof -
  let ?em = "demo_em BOOT_MODE_INSECURE"
  let ?st1 = "\<lparr>ccs_SerialNumber = ''123C'', ccs_Status = CONTROL_CARD_STATUS_NOT_INITIALIZED\<rparr>"
  let ?st2 = "\<lparr>ccs_SerialNumber = ''123C'', ccs_Status = CONTROL_CARD_STATUS_INITIALIZED\<rparr>"
  let ?r1 = "\<lparr>States = [Some \<lparr>ccs_SerialNumber = ''123A'', ccs_Status = CONTROL_CARD_STATUS_INITIALIZED\<rparr>]\<rparr>"
  let ?r2 = "\<lparr>States = [Some ?st1, Some ?st2]\<rparr>"
  let ?s1 = "New\<lparr>activeBoots := [''123A'' \<mapsto> demo_log]\<rparr>"
  let ?s2 = "New\<lparr>activeBoots := [''123C'' \<mapsto> demo_log]\<rparr>"
  have h1: "em_SetStatus ?em ?r1 0 = (None, 1)"
    by (simp add: demo_em_def known_card_def GetSerialNumber_def)
  have h2: "em_SetStatus ?em ?r2 0 = (Some (Status NotFound ''could not find control card'' []), 1)"
    by (simp add: demo_em_def known_card_def GetSerialNumber_def)
  have shape: "States ?r2 = map Some [?st1, ?st2]"
    by simp
  have present: "\<forall>st\<in>set [?st1, ?st2]. activeBoots ?s2 (ccs_SerialNumber st) \<noteq> None"
    by simp
  have log: "activeBoots ?s2 ''123C'' = Some demo_log"
    by simp
  have rd: "readings [?st1, ?st2] = 1"
    by (simp add: readings_def)
  have bl: "before_last_initialized ''123C'' [?st1, ?st2] = [?st1]"
    by (simp add: before_last_initialized_def)
  have sf: "statuses_for ''123C'' [?st1, ?st2] =
              [CONTROL_CARD_STATUS_NOT_INITIALIZED, CONTROL_CARD_STATUS_INITIALIZED]"
    by (simp add: statuses_for_def)
  have world: "after_readings demo_now 1 1 = 2" "after_readings demo_now (readings [?st1]) 1 = 1"
    by (simp_all add: after_readings_def demo_now_def readings_def)
  from ReportStatus_inverted_contract [OF h1, where now = demo_now and s = ?s1]
  have a: "ReportStatus ?em demo_now ?r1 (?s1, 0) = (Ret None None, ?s1, 1)"
    by simp
  from ReportStatus_inverted_contract [OF h2, where now = demo_now and s = ?s2
         and stats = "[?st1, ?st2]"] shape present
  obtain s' where
    r: "ReportStatus ?em demo_now ?r2 (?s2, 0) =
          (Ret (Some ()) None, s', after_readings demo_now (readings [?st1, ?st2]) 1)" and
    l: "\<forall>k. \<forall>b. activeBoots ?s2 k = Some b \<longrightarrow> (\<exists>b'. activeBoots s' k = Some b' \<and>
          Status_hist b' = Status_hist b @ statuses_for k [?st1, ?st2] \<and>
          LastStatus b' = last (LastStatus b # statuses_for k [?st1, ?st2]) \<and>
          EndTimeStamp b' =
            (if CONTROL_CARD_STATUS_INITIALIZED \<in> set (statuses_for k [?st1, ?st2])
             then word_of_int (fst (demo_now (after_readings demo_now
                    (readings (before_last_initialized k [?st1, ?st2])) 1)))
             else EndTimeStamp b) \<and>
          StartTimeStamp b' = StartTimeStamp b)"
    by blast
  from l log obtain b' where b':
    "activeBoots s' ''123C'' = Some b'"
    "Status_hist b' = Status_hist demo_log @ statuses_for ''123C'' [?st1, ?st2]"
    "LastStatus b' = last (LastStatus demo_log # statuses_for ''123C'' [?st1, ?st2])"
    "EndTimeStamp b' =
            (if CONTROL_CARD_STATUS_INITIALIZED \<in> set (statuses_for ''123C'' [?st1, ?st2])
             then word_of_int (fst (demo_now (after_readings demo_now
                    (readings (before_last_initialized ''123C'' [?st1, ?st2])) 1)))
             else EndTimeStamp demo_log)"
    "StartTimeStamp b' = StartTimeStamp demo_log"
    by blast
  have vals: "activeBoots s' ''123C'' = Some b' \<and>
     Status_hist b' = [CONTROL_CARD_STATUS_NOT_INITIALIZED, CONTROL_CARD_STATUS_INITIALIZED] \<and>
     LastStatus b' = CONTROL_CARD_STATUS_INITIALIZED \<and>
     EndTimeStamp b' = 1700000000001 \<and>
     StartTimeStamp b' = 1699999999000"
    using b' unfolding sf bl world
    by (simp add: demo_log_def zero_bootLog_def demo_now_def)
  have r': "ReportStatus ?em demo_now ?r2 (?s2, 0) = (Ret (Some ()) None, s', 2)"
    using r unfolding rd world by simp
  from h1 a h2 r' vals show ?thesis by blast
qed

text \<open>
  C7: when \<open>SetStatus\<close> returns an error, ReportStatus dereferences the map entry
  of every reported serial without a check: it panics exactly when some
  reported state names a serial with no boot log in \<open>activeBoots\<close>, or is a nil
  entry.
\<close>

theorem ReportStatus_panics_iff_missing_log:
  assumes "em_SetStatus em req w = (Some e, w1)"
  shows "fst (ReportStatus em now req (s, w)) = Panic \<longleftrightarrow>
         (\<exists>stat\<in>set (States req). stat = None \<or> activeBoots s (GetSerialNumber stat) = None)"
proof -
  have "fst (ReportStatus em now req (s, w)) = Panic \<longleftrightarrow>
        \<not> fst (applyStates now (States req) (s, w1))"
    using assms by (simp add: ReportStatus_def split: prod.splits bool.splits)
  then show ?thesis by (auto simp: applyStates_panic_iff)
qed

theorem ReportStatus_panics_iff_missing_log_witness:
  "em_SetStatus (demo_em BOOT_MODE_INSECURE)
     \<lparr>States = [Some \<lparr>ccs_SerialNumber = ''123C'', ccs_Status = CONTROL_CARD_STATUS_INITIALIZED\<rparr>]\<rparr> 0
     = (Some (Status NotFound ''could not find control card'' []), 1) \<and>
   fst (ReportStatus (demo_em BOOT_MODE_INSECURE) demo_now
     \<lparr>States = [Some \<lparr>ccs_SerialNumber = ''123C'', ccs_Status = CONTROL_CARD_STATUS_INITIALIZED\<rparr>]\<rparr>
     (New, 0)) = Panic \<and>
   fst (ReportStatus (demo_em BOOT_MODE_INSECURE) demo_now
     \<lparr>States = [Some \<lparr>ccs_SerialNumber = ''123C'', ccs_Status = CONTROL_CARD_STATUS_INITIALIZED\<rparr>]\<rparr>
     (New\<lparr>activeBoots := [''123C'' \<mapsto> demo_log]\<rparr>, 0)) \<noteq> Panic"
proof -
  let ?em = "demo_em BOOT_MODE_INSECURE"
  let ?r2 = "\<lparr>States = [Some \<lparr>ccs_SerialNumber = ''123C'', ccs_Status = CONTROL_CARD_STATUS_INITIALIZED\<rparr>]\<rparr>"
  have h2: "em_SetStatus ?em ?r2 0 = (Some (Status NotFound ''could not find control card'' []), 1)"
    by (simp add: demo_em_def known_card_def GetSerialNumber_def)
  from ReportStatus_panics_iff_missing_log [OF h2, where now = demo_now and s = New]
  have a: "fst (ReportStatus ?em demo_now ?r2 (New, 0)) = Panic"
    by (simp add: New_def)
  from ReportStatus_panics_iff_missing_log [OF h2, where now = demo_now
         and s = "New\<lparr>activeBoots := [''123C'' \<mapsto> demo_log]\<rparr>"]
  have b: "fst (ReportStatus ?em demo_now ?r2 (New\<lparr>activeBoots := [''123C'' \<mapsto> demo_log]\<rparr>, 0)) \<noteq> Panic"
    by (simp add: GetSerialNumber_def)
  from h2 a b show ?thesis by blast
qed

section \<open>Claims about the accessors\<close>

text \<open>
  C8, as stated: for a serial with no entry GetBootStatus returns the zero boot
  log together with a NotFound error. It fails on the empty ledger: the error
  returned there carries no NotFound code.
\<close>

theorem GetBootStatus_absent_not_NotFound:
  "activeBoots New ''123A'' = None \<and>
   snd (GetBootStatus New ''123A'') =
     Some (Errorf ''no boot log found for controller card %s'' [ArgString ''123A'']) \<and>
   \<not> is_code NotFound (snd (GetBootStatus New ''123A''))"
  by (simp add: New_def GetBootStatus_def is_code_def)

text \<open>
  C8, amended: for a serial with no entry GetBootStatus returns the zero boot
  log together with a plain \<^verbatim>\<open>fmt.Errorf\<close> error saying that no boot log was
  found for that serial, which is not a status error of code NotFound; for a
  serial with an entry it returns that entry's value and no error.
\<close>

theorem GetBootStatus_result:
  "(activeBoots s serial = None \<longrightarrow>
      GetBootStatus s serial =
        (zero_bootLog, Some (Errorf ''no boot log found for controller card %s'' [ArgString serial])) \<and>
      \<not> is_code NotFound (snd (GetBootStatus s serial))) \<and>
   (\<forall>b. activeBoots s serial = Some b \<longrightarrow> GetBootStatus s serial = (b, None))"
  by (simp add: GetBootStatus_def is_code_def)

theorem GetBootStatus_result_witness:
  "activeBoots New ''123A'' = None \<and>
   GetBootStatus New ''123A'' =
     (zero_bootLog, Some (Errorf ''no boot log found for controller card %s'' [ArgString ''123A''])) \<and>
   activeBoots (New\<lparr>activeBoots := [''123A'' \<mapsto> demo_log]\<rparr>) ''123A'' = Some demo_log \<and>
   GetBootStatus (New\<lparr>activeBoots := [''123A'' \<mapsto> demo_log]\<rparr>) ''123A'' = (demo_log, None)"
  using GetBootStatus_result [of New "''123A''"]
        GetBootStatus_result [of "New\<lparr>activeBoots := [''123A'' \<mapsto> demo_log]\<rparr>" "''123A''"]
  by (simp add: New_def)

section \<open>Claims about GetBootstrapData\<close>



section \<open>The loop of GetBootstrapData\<close>

text \<open>
  The loop touches only \<open>activeBoots\<close> and, when it runs to its end, yields one
  response per entry; it reaches the entity manager only through its fetch
  operation.
\<close>

lemma fetchCards_frame:
  "fetchCards em now req l ch vs (s, errs, rs, w) = (ok, s', errs', rs', w') \<Longrightarrow>
   connectedChassis s' = connectedChassis s \<and> failedRequest s' = failedRequest s \<and>
   (ok \<longrightarrow> length rs' = length rs + length vs)"
proof (induction vs arbitrary: s errs rs w)
  case Nil
  then show ?case by simp
next
  case (Cons v vs)
  obtain t w1 where t: "now w = (t, w1)" by (cases "now w")
  obtain bd e w2 where f: "em_GetBootstrapData em l v w1 = ((bd, e), w2)"
    by (metis surj_pair)
  from Cons.prems t f show ?case
    by (auto simp: Let_def split: if_splits dest!: Cons.IH)
qed

lemma fetchCards_cong:
  assumes "em_GetBootstrapData em' = em_GetBootstrapData em"
  shows "fetchCards em' now req l ch vs acc = fetchCards em now req l ch vs acc"
proof (induction vs arbitrary: acc)
  case Nil
  then show ?case by simp
next
  case (Cons v vs)
  obtain s errs rs w where acc: "acc = (s, errs, rs, w)" by (cases acc)
  show ?case unfolding acc by (auto simp: assms Cons.IH Let_def split: prod.splits)
qed

section \<open>The call after the loop\<close>

text \<open>
  Once the chassis has resolved, the policy has passed and the loop has run,
  the rest of the call is the error check and the signing step; and a call that
  returned a response went through all of these.
\<close>

lemma GetBootstrapData_run:
  assumes "ChassisDescriptor (snd req) = Some cd"
      and "ControlCards cd = v # vs"
      and "l = \<lparr>el_Manufacturer = cd_Manufacturer cd, el_SerialNumber = cd_SerialNumber cd\<rparr>"
      and "em_ResolveChassis em l (cc_GetSerialNumber v) w = ((Some ch, None), w1)"
      and "\<not> (BootMode ch = BOOT_MODE_SECURE \<and> Nonce (snd req) = [])"
      and "fetchCards em now req l ch (v # vs)
             (s\<lparr>connectedChassis := (connectedChassis s)(l \<mapsto> True)\<rparr>, [], [], w1)
           = (ok, s2, errs, rs, w2)"
  shows "GetBootstrapData em now req (s, w) =
     (if \<not> ok then (Panic, s2, w2) else
      case Err_of errs of
        Some e \<Rightarrow> (Ret None (Some e), s2, w2)
      | None \<Rightarrow>
          if Nonce (snd req) \<noteq> []
          then (case em_Sign em
                       \<lparr>SignedResponse = Some \<lparr>Responses = rs, sr_Nonce = Nonce (snd req)\<rparr>,
                        OwnershipVoucher = [], OwnershipCertificate = [], ResponseSignature = []\<rparr>
                       l (GetSerialNumber (ControlCardState (snd req))) w2 of
                  ((resp2, serr), w4) \<Rightarrow>
                    if serr \<noteq> None
                    then (Ret None (Some (Status Internal ''failed to sign bootz response'' [])), s2, w4)
                    else (Ret (Some resp2) None, s2, w4))
          else (Ret (Some \<lparr>SignedResponse = Some \<lparr>Responses = rs, sr_Nonce = []\<rparr>,
                            OwnershipVoucher = [], OwnershipCertificate = [],
                            ResponseSignature = []\<rparr>) None, s2, w2))"
proof (cases "BootMode ch = BOOT_MODE_SECURE")
  case True
  with assms(5) have "Nonce (snd req) \<noteq> []" by simp
  with True assms(1,2,4,6) show ?thesis
    unfolding GetBootstrapData_def assms(3)
    by (simp add: Let_def del: fetchCards.simps split: option.splits prod.splits)
next
  case False
  with assms(1,2,4,6) show ?thesis
    unfolding GetBootstrapData_def assms(3)
    by (simp add: Let_def del: fetchCards.simps split: option.splits prod.splits)
qed

lemma GetBootstrapData_success_cases:
  assumes "GetBootstrapData em now req (s, w) = (Ret (Some resp) None, s', w')"
      and "ChassisDescriptor (snd req) = Some cd"
      and "l = \<lparr>el_Manufacturer = cd_Manufacturer cd, el_SerialNumber = cd_SerialNumber cd\<rparr>"
  shows "\<exists>v vs ch w1 errs rs w2.
           ControlCards cd = v # vs \<and>
           em_ResolveChassis em l (cc_GetSerialNumber v) w = ((Some ch, None), w1) \<and>
           \<not> (BootMode ch = BOOT_MODE_SECURE \<and> Nonce (snd req) = []) \<and>
           fetchCards em now req l ch (v # vs)
             (s\<lparr>connectedChassis := (connectedChassis s)(l \<mapsto> True)\<rparr>, [], [], w1)
             = (True, s', errs, rs, w2) \<and>
           Err_of errs = None"
proof -
  let ?s1 = "s\<lparr>connectedChassis := (connectedChassis s)(l \<mapsto> True)\<rparr>"
  from assms(1,2) obtain v vs where cards: "ControlCards cd = v # vs"
    by (cases "ControlCards cd") (auto simp: GetBootstrapData_def)
  obtain chassis err w1 where res:
    "em_ResolveChassis em l (cc_GetSerialNumber v) w = ((chassis, err), w1)"
    by (metis surj_pair)
  from assms(1,2) cards res have err: "err = None"
    unfolding assms(3) by (cases err) (auto simp: GetBootstrapData_def)
  from assms(1,2) cards res err obtain ch where ch: "chassis = Some ch"
    unfolding assms(3) by (cases chassis) (auto simp: GetBootstrapData_def)
  from assms(1,2) cards res err ch
  have gate: "\<not> (BootMode ch = BOOT_MODE_SECURE \<and> Nonce (snd req) = [])"
    unfolding assms(3) by (auto simp: GetBootstrapData_def)
  obtain ok s2 errs rs w2 where
    loop: "fetchCards em now req l ch (v # vs) (?s1, [], [], w1) = (ok, s2, errs, rs, w2)"
    by (metis surj_pair)
  note run = GetBootstrapData_run [OF assms(2) cards assms(3) res [unfolded err ch] gate loop]
  from run assms(1) have fin: "ok \<and> Err_of errs = None \<and> s2 = s'"
    by (auto split: option.splits if_splits prod.splits)
  with loop have loop': "fetchCards em now req l ch (v # vs) (?s1, [], [], w1) =
                           (True, s', errs, rs, w2)"
    by simp
  from cards res [unfolded err ch] gate loop' fin show ?thesis by blast
qed

lemma GetBootstrapData_success_connected:
  assumes "GetBootstrapData em now req (s, w) = (Ret (Some resp) None, s', w')"
      and "ChassisDescriptor (snd req) = Some cd"
  shows "connectedChassis s'
           \<lparr>el_Manufacturer = cd_Manufacturer cd, el_SerialNumber = cd_SerialNumber cd\<rparr> = Some True"
proof -
  let ?l = "\<lparr>el_Manufacturer = cd_Manufacturer cd, el_SerialNumber = cd_SerialNumber cd\<rparr>"
  from GetBootstrapData_success_cases [OF assms refl]
  obtain v vs ch w1 errs rs w2 where
    "fetchCards em now req ?l ch (v # vs)
       (s\<lparr>connectedChassis := (connectedChassis s)(?l \<mapsto> True)\<rparr>, [], [], w1)
     = (True, s', errs, rs, w2)"
    by blast
  from fetchCards_frame [OF this] show ?thesis by simp
qed

lemmas demo_simps = demo_em_def demo_now_def demo_req_def card_def known_card_def New_def
  cc_GetSerialNumber_def GetSerialNumber_def

section \<open>Claims about the boot-mode policy\<close>

text \<open>
  C3: a request with an empty nonce whose chassis resolves to boot mode SECURE
  fails with an InvalidArgument error whatever control cards it lists, before
  any per-card processing: \<open>activeBoots\<close> is unchanged and the outcome does not
  depend on the entity manager's fetch operation.
\<close>

theorem GetBootstrapData_secure_without_nonce:
  assumes "ChassisDescriptor (snd req) = Some cd"
      and "Nonce (snd req) = []"
      and "em_ResolveChassis em
             \<lparr>el_Manufacturer = cd_Manufacturer cd, el_SerialNumber = cd_SerialNumber cd\<rparr>
             (case ControlCards cd of [] \<Rightarrow> [] | v # vs \<Rightarrow> cc_GetSerialNumber v) w
           = ((Some ch, None), w1)"
      and "BootMode ch = BOOT_MODE_SECURE"
  shows "\<exists>e s' w'. GetBootstrapData em now req (s, w) = (Ret None (Some e), s', w') \<and>
           code_of e = InvalidArgument \<and> activeBoots s' = activeBoots s \<and>
           (\<forall>g. GetBootstrapData (em\<lparr>em_GetBootstrapData := g\<rparr>) now req (s, w) =
                GetBootstrapData em now req (s, w))"
proof (cases "ControlCards cd")
  case Nil
  with assms show ?thesis by (simp add: GetBootstrapData_def)
next
  case (Cons v vs)
  with assms show ?thesis by (simp add: GetBootstrapData_def)
qed

theorem GetBootstrapData_secure_without_nonce_witness:
  "ChassisDescriptor (snd (demo_req [''999''] [])) =
     Some \<lparr>cd_Manufacturer = ''Cisco'', cd_SerialNumber = ''123'', ControlCards = [card ''999'']\<rparr> \<and>
   Nonce (snd (demo_req [''999''] [])) = [] \<and>
   em_ResolveChassis (demo_em BOOT_MODE_SECURE)
     \<lparr>el_Manufacturer = ''Cisco'', el_SerialNumber = ''123''\<rparr> ''999'' 0
     = ((Some \<lparr>BootMode = BOOT_MODE_SECURE\<rparr>, None), 1) \<and>
   (\<exists>e s' w'. GetBootstrapData (demo_em BOOT_MODE_SECURE) demo_now (demo_req [''999''] []) (New, 0)
        = (Ret None (Some e), s', w') \<and>
      code_of e = InvalidArgument \<and> activeBoots s' = activeBoots New)"
proof -
  let ?cd = "\<lparr>cd_Manufacturer = ''Cisco'', cd_SerialNumber = ''123'', ControlCards = [card ''999'']\<rparr>"
  have h1: "ChassisDescriptor (snd (demo_req [''999''] [])) = Some ?cd"
    by (simp add: demo_req_def)
  have h2: "Nonce (snd (demo_req [''999''] [])) = []"
    by (simp add: demo_req_def)
  have h3: "em_ResolveChassis (demo_em BOOT_MODE_SECURE)
             \<lparr>el_Manufacturer = cd_Manufacturer ?cd, el_SerialNumber = cd_SerialNumber ?cd\<rparr>
             (case ControlCards ?cd of [] \<Rightarrow> [] | v # vs \<Rightarrow> cc_GetSerialNumber v) 0
           = ((Some \<lparr>BootMode = BOOT_MODE_SECURE\<rparr>, None), 1)"
    by (simp add: demo_em_def card_def cc_GetSerialNumber_def)
  have h4: "BootMode \<lparr>BootMode = BOOT_MODE_SECURE\<rparr> = BOOT_MODE_SECURE"
    by simp
  from GetBootstrapData_secure_without_nonce [OF h1 h2 h3 h4, where now = demo_now and s = New]
  have "\<exists>e s' w'. GetBootstrapData (demo_em BOOT_MODE_SECURE) demo_now (demo_req [''999''] []) (New, 0)
        = (Ret None (Some e), s', w') \<and>
      code_of e = InvalidArgument \<and> activeBoots s' = activeBoots New"
    by blast
  with h1 h2 h3 show ?thesis by (simp add: card_def cc_GetSerialNumber_def)
qed

text \<open>
  C9: when the request lists a control card, resolves to a SECURE chassis and
  has no nonce, the rejection comes after the chassis was marked connected and
  before any per-card work: the chassis is in \<open>connectedChassis\<close>, and
  \<open>failedRequest\<close> and \<open>activeBoots\<close> are as they were.
\<close>

theorem GetBootstrapData_secure_rejection_frame:
  assumes "ChassisDescriptor (snd req) = Some cd"
      and "ControlCards cd = v # vs"
      and "Nonce (snd req) = []"
      and "em_ResolveChassis em
             \<lparr>el_Manufacturer = cd_Manufacturer cd, el_SerialNumber = cd_SerialNumber cd\<rparr>
             (cc_GetSerialNumber v) w
           = ((Some ch, None), w1)"
      and "BootMode ch = BOOT_MODE_SECURE"
  shows "\<exists>s'. GetBootstrapData em now req (s, w) =
           (Ret None (Some (Status InvalidArgument ''chassis requires secure boot only'' [])), s', w1) \<and>
           connectedChassis s' = (connectedChassis s)
             (\<lparr>el_Manufacturer = cd_Manufacturer cd, el_SerialNumber = cd_SerialNumber cd\<rparr> \<mapsto> True) \<and>
           IsChassisConnected s'
             \<lparr>el_Manufacturer = cd_Manufacturer cd, el_SerialNumber = cd_SerialNumber cd\<rparr> \<and>
           failedRequest s' = failedRequest s \<and> activeBoots s' = activeBoots s"
  using assms by (simp add: GetBootstrapData_def IsChassisConnected_def)

theorem GetBootstrapData_secure_rejection_frame_witness:
  "ChassisDescriptor (snd (demo_req [''123A'', ''123B''] [])) =
     Some \<lparr>cd_Manufacturer = ''Cisco'', cd_SerialNumber = ''123'',
           ControlCards = [card ''123A'', card ''123B'']\<rparr> \<and>
   Nonce (snd (demo_req [''123A'', ''123B''] [])) = [] \<and>
   em_ResolveChassis (demo_em BOOT_MODE_SECURE)
     \<lparr>el_Manufacturer = ''Cisco'', el_SerialNumber = ''123''\<rparr> ''123A'' 0
     = ((Some \<lparr>BootMode = BOOT_MODE_SECURE\<rparr>, None), 1) \<and>
   (\<exists>s'. GetBootstrapData (demo_em BOOT_MODE_SECURE) demo_now (demo_req [''123A'', ''123B''] []) (New, 0)
        = (Ret None (Some (Status InvalidArgument ''chassis requires secure boot only'' [])), s', 1) \<and>
      IsChassisConnected s' \<lparr>el_Manufacturer = ''Cisco'', el_SerialNumber = ''123''\<rparr> \<and>
      failedRequest s' = failedRequest New \<and> activeBoots s' = activeBoots New)"
proof -
  let ?cd = "\<lparr>cd_Manufacturer = ''Cisco'', cd_SerialNumber = ''123'',
              ControlCards = [card ''123A'', card ''123B'']\<rparr>"
  have h1: "ChassisDescriptor (snd (demo_req [''123A'', ''123B''] [])) = Some ?cd"
    by (simp add: demo_req_def)
  have h2: "ControlCards ?cd = card ''123A'' # [card ''123B'']"
    by simp
  have h3: "Nonce (snd (demo_req [''123A'', ''123B''] [])) = []"
    by (simp add: demo_req_def)
  have h4: "em_ResolveChassis (demo_em BOOT_MODE_SECURE)
             \<lparr>el_Manufacturer = cd_Manufacturer ?cd, el_SerialNumber = cd_SerialNumber ?cd\<rparr>
             (cc_GetSerialNumber (card ''123A'')) 0
           = ((Some \<lparr>BootMode = BOOT_MODE_SECURE\<rparr>, None), 1)"
    by (simp add: demo_em_def card_def cc_GetSerialNumber_def)
  have h5: "BootMode \<lparr>BootMode = BOOT_MODE_SECURE\<rparr> = BOOT_MODE_SECURE"
    by simp
  from GetBootstrapData_secure_rejection_frame [OF h1 h2 h3 h4 h5, where now = demo_now and s = New]
  have "\<exists>s'. GetBootstrapData (demo_em BOOT_MODE_SECURE) demo_now (demo_req [''123A'', ''123B''] []) (New, 0)
        = (Ret None (Some (Status InvalidArgument ''chassis requires secure boot only'' [])), s', 1) \<and>
      IsChassisConnected s' \<lparr>el_Manufacturer = ''Cisco'', el_SerialNumber = ''123''\<rparr> \<and>
      failedRequest s' = failedRequest New \<and> activeBoots s' = activeBoots New"
    by auto
  with h1 h3 h4 show ?thesis by (simp add: card_def cc_GetSerialNumber_def)
qed

section \<open>Claims about partial failure\<close>

text \<open>
  C2: for a request naming two control cards on a chassis that resolves and
  passes the boot-mode policy, where the fetch fails for at least one of the
  cards, the loop does not stop at the failure: the ledger holds a boot log for
  both cards, each with the response and the error its own fetch returned (the
  second card's log stands alone when both cards have one serial), and the call
  returns the aggregate of the errors and no response.
\<close>

theorem GetBootstrapData_two_cards_one_fails:
  assumes "ChassisDescriptor (snd req) = Some cd"
      and "ControlCards cd = [Some c1, Some c2]"
      and "lookup = \<lparr>el_Manufacturer = cd_Manufacturer cd, el_SerialNumber = cd_SerialNumber cd\<rparr>"
      and "em_ResolveChassis em lookup (cc_SerialNumber c1) w = ((Some ch, None), w1)"
      and "\<not> (BootMode ch = BOOT_MODE_SECURE \<and> Nonce (snd req) = [])"
      and "now w1 = (t1, w2)"
      and "em_GetBootstrapData em lookup (Some c1) w2 = ((r1, e1), w3)"
      and "now w3 = (t2, w4)"
      and "em_GetBootstrapData em lookup (Some c2) w4 = ((r2, e2), w5)"
      and "e1 \<noteq> None \<or> e2 \<noteq> None"
      and "log1 = \<lparr>bl_BootMode = BootMode ch, StartTimeStamp = uint64 t1, EndTimeStamp = 0,
                    Status_hist = [], LastStatus = CONTROL_CARD_STATUS_UNSPECIFIED,
                    BootResponse = r1, BootRequest = Some req, Err = e1\<rparr>"
      and "log2 = \<lparr>bl_BootMode = BootMode ch, StartTimeStamp = uint64 t2, EndTimeStamp = 0,
                    Status_hist = [], LastStatus = CONTROL_CARD_STATUS_UNSPECIFIED,
                    BootResponse = r2, BootRequest = Some req, Err = e2\<rparr>"
  shows "\<exists>agg s'. GetBootstrapData em now req (s, w) = (Ret None (Some agg), s', w5) \<and>
           Err_of (Add (Add [] e1) e2) = Some agg \<and>
           activeBoots s' = (activeBoots s)(cc_SerialNumber c1 \<mapsto> log1, cc_SerialNumber c2 \<mapsto> log2) \<and>
           activeBoots s' (cc_SerialNumber c2) = Some log2 \<and>
           (cc_SerialNumber c1 \<noteq> cc_SerialNumber c2 \<longrightarrow>
              activeBoots s' (cc_SerialNumber c1) = Some log1)"
proof -
  let ?s1 = "s\<lparr>connectedChassis := (connectedChassis s)(lookup \<mapsto> True)\<rparr>"
  let ?s2 = "?s1\<lparr>activeBoots := (activeBoots s)(cc_SerialNumber c1 \<mapsto> log1, cc_SerialNumber c2 \<mapsto> log2)\<rparr>"
  have "\<exists>agg. Err_of (Add (Add [] e1) e2) = Some agg"
    using assms(10)
    by (cases e1; cases e2)
       (auto simp: Add_def Err_of_def split: list.splits elim: errors_of.elims)
  then obtain agg where agg: "Err_of (Add (Add [] e1) e2) = Some agg" by blast
  have loop: "fetchCards em now req lookup ch [Some c1, Some c2] (?s1, [], [], w1) =
                (True, ?s2, Add (Add [] e1) e2, [r1, r2], w5)"
    using assms(6-9) unfolding assms(11,12)
    by (cases e1; cases e2) (simp_all add: Add_def cc_GetSerialNumber_def)
  have gate: "\<not> (BootMode ch = BOOT_MODE_SECURE \<and> Nonce (snd req) = [])"
    by (rule assms(5))
  have run: "GetBootstrapData em now req (s, w) = (Ret None (Some agg), ?s2, w5)"
  proof (cases "BootMode ch = BOOT_MODE_SECURE")
    case True
    with gate have "Nonce (snd req) \<noteq> []" by simp
    with True assms(1,2,4) loop agg show ?thesis
      unfolding GetBootstrapData_def assms(3)
      by (simp add: Let_def cc_GetSerialNumber_def del: fetchCards.simps)
  next
    case False
    with assms(1,2,4) loop agg show ?thesis
      unfolding GetBootstrapData_def assms(3)
      by (simp add: Let_def cc_GetSerialNumber_def del: fetchCards.simps)
  qed
  show ?thesis
    using run agg by simp
qed

theorem GetBootstrapData_two_cards_one_fails_witness:
  "\<exists>s'. GetBootstrapData (demo_em BOOT_MODE_INSECURE) demo_now (demo_req [''123A'', ''123C''] []) (New, 0)
      = (Ret None (Some (ErrList (Status NotFound ''could not find control card'' []) [])), s', 5) \<and>
    activeBoots s' ''123A'' =
      Some \<lparr>bl_BootMode = BOOT_MODE_INSECURE, StartTimeStamp = uint64 1700000000001, EndTimeStamp = 0,
            Status_hist = [], LastStatus = CONTROL_CARD_STATUS_UNSPECIFIED,
            BootResponse = Some \<lparr>SerialNum = ''123A'', BootPasswordHash = ''ABCD123''\<rparr>,
            BootRequest = Some (demo_req [''123A'', ''123C''] []), Err = None\<rparr> \<and>
    activeBoots s' ''123C'' =
      Some \<lparr>bl_BootMode = BOOT_MODE_INSECURE, StartTimeStamp = uint64 1700000000003, EndTimeStamp = 0,
            Status_hist = [], LastStatus = CONTROL_CARD_STATUS_UNSPECIFIED,
            BootResponse = None,
            BootRequest = Some (demo_req [''123A'', ''123C''] []),
            Err = Some (Status NotFound ''could not find control card'' [])\<rparr>"
proof -
  let ?em = "demo_em BOOT_MODE_INSECURE"
  let ?req = "demo_req [''123A'', ''123C''] []"
  let ?cd = "\<lparr>cd_Manufacturer = ''Cisco'', cd_SerialNumber = ''123'',
              ControlCards = [card ''123A'', card ''123C'']\<rparr>"
  let ?l = "\<lparr>el_Manufacturer = ''Cisco'', el_SerialNumber = ''123''\<rparr>"
  let ?e = "Status NotFound ''could not find control card'' []"
  have h1: "ChassisDescriptor (snd ?req) = Some ?cd" by (simp add: demo_req_def)
  let ?c1 = "\<lparr>cc_SerialNumber = ''123A'', cc_PartNumber = ''123A''\<rparr>"
  let ?c2 = "\<lparr>cc_SerialNumber = ''123C'', cc_PartNumber = ''123C''\<rparr>"
  have h2: "ControlCards ?cd = [Some ?c1, Some ?c2]" by (simp add: card_def)
  have h3: "?l = \<lparr>el_Manufacturer = cd_Manufacturer ?cd, el_SerialNumber = cd_SerialNumber ?cd\<rparr>"
    by simp
  have h4: "em_ResolveChassis ?em ?l (cc_SerialNumber ?c1) 0
              = ((Some \<lparr>BootMode = BOOT_MODE_INSECURE\<rparr>, None), 1)"
    by (simp add: demo_em_def)
  have h5: "\<not> (BootMode \<lparr>BootMode = BOOT_MODE_INSECURE\<rparr> = BOOT_MODE_SECURE \<and> Nonce (snd ?req) = [])"
    by simp
  have h6: "demo_now 1 = (1700000000001, 2)" by (simp add: demo_now_def)
  have h7: "em_GetBootstrapData ?em ?l (Some ?c1) 2
              = ((Some \<lparr>SerialNum = ''123A'', BootPasswordHash = ''ABCD123''\<rparr>, None), 3)"
    by (simp add: demo_em_def card_def known_card_def)
  have h8: "demo_now 3 = (1700000000003, 4)" by (simp add: demo_now_def)
  have h9: "em_GetBootstrapData ?em ?l (Some ?c2) 4 = ((None, Some ?e), 5)"
    by (simp add: demo_em_def card_def known_card_def)
  have h10: "(None :: error option) \<noteq> None \<or> Some ?e \<noteq> None" by simp
  from GetBootstrapData_two_cards_one_fails [OF h1 h2 h3 h4 h5 h6 h7 h8 h9 h10 refl refl, where s = New]
  show ?thesis
    by (auto simp: Add_def Err_of_def card_def)
qed

section \<open>Claims about the connected set\<close>

text \<open>
  C10: after a GetBootstrapData that returned a response, IsChassisConnected is
  true for the lookup built from the request's descriptor; after a ResetStatus
  that follows, the three maps of the ledger are empty and IsChassisConnected
  is false for every lookup.
\<close>

theorem connected_after_success_reset_clears:
  assumes "GetBootstrapData em now req (s, w) = (Ret (Some resp) None, s', w')"
      and "ChassisDescriptor (snd req) = Some cd"
  shows "IsChassisConnected s'
           \<lparr>el_Manufacturer = cd_Manufacturer cd, el_SerialNumber = cd_SerialNumber cd\<rparr> \<and>
         (\<forall>l. \<not> IsChassisConnected (ResetStatus s' c) l) \<and>
         ResetStatus s' c =
           \<lparr>connectedChassis = Map.empty, activeBoots = Map.empty, failedRequest = Map.empty\<rparr>"
  using GetBootstrapData_success_connected [OF assms]
  by (simp add: IsChassisConnected_def ResetStatus_def)

theorem connected_after_success_reset_clears_witness:
  "\<exists>resp s' w'.
     GetBootstrapData (demo_em BOOT_MODE_INSECURE) demo_now (demo_req [''123A'', ''123B''] []) (New, 0)
       = (Ret (Some resp) None, s', w') \<and>
     IsChassisConnected s' \<lparr>el_Manufacturer = ''Cisco'', el_SerialNumber = ''123''\<rparr> \<and>
     (\<forall>l. \<not> IsChassisConnected
             (ResetStatus s' \<lparr>el_Manufacturer = ''Cisco'', el_SerialNumber = ''123''\<rparr>) l)"
proof -
  let ?cd = "\<lparr>cd_Manufacturer = ''Cisco'', cd_SerialNumber = ''123'',
              ControlCards = [card ''123A'', card ''123B'']\<rparr>"
  have "\<exists>resp s' w'.
     GetBootstrapData (demo_em BOOT_MODE_INSECURE) demo_now (demo_req [''123A'', ''123B''] []) (New, 0)
       = (Ret (Some resp) None, s', w')"
    by (simp add: GetBootstrapData_def demo_simps Add_def Err_of_def Let_def)
  then obtain resp s' w' where run:
    "GetBootstrapData (demo_em BOOT_MODE_INSECURE) demo_now (demo_req [''123A'', ''123B''] []) (New, 0)
       = (Ret (Some resp) None, s', w')"
    by blast
  have cd: "ChassisDescriptor (snd (demo_req [''123A'', ''123B''] [])) = Some ?cd"
    by (simp add: demo_req_def)
  from connected_after_success_reset_clears [OF run cd,
         where c = "\<lparr>el_Manufacturer = ''Cisco'', el_SerialNumber = ''123''\<rparr>"] run
  show ?thesis by auto
qed

section \<open>Claims about the fixed-chassis branch\<close>




section \<open>Claims about signing\<close>

text \<open>
  C6: take a call that assembles its envelope, that is, one that returns a
  response \<open>resp0\<close> when the signer does nothing. With an empty nonce the call
  returns that same envelope whatever the signer is (Sign is not called), and
  its signature field is empty. With a nonce the envelope carries the nonce,
  and the call is decided by Sign applied to that envelope, the chassis lookup
  and the serial of the request's control-card state: an error from Sign makes
  the call fail with an Internal error, otherwise the response as Sign left it
  is returned.
\<close>

theorem GetBootstrapData_signs_iff_nonce:
  assumes "GetBootstrapData (em\<lparr>em_Sign := noSign\<rparr>) now req (s, w) = (Ret (Some resp0) None, s', w')"
      and "ChassisDescriptor (snd req) = Some cd"
  shows "(Nonce (snd req) = [] \<longrightarrow>
            (\<forall>f. GetBootstrapData (em\<lparr>em_Sign := f\<rparr>) now req (s, w) = (Ret (Some resp0) None, s', w')) \<and>
            ResponseSignature resp0 = [] \<and>
            (\<exists>rs. SignedResponse resp0 = Some \<lparr>Responses = rs, sr_Nonce = []\<rparr>)) \<and>
         (Nonce (snd req) \<noteq> [] \<longrightarrow>
            (\<exists>rs. SignedResponse resp0 = Some \<lparr>Responses = rs, sr_Nonce = Nonce (snd req)\<rparr>) \<and>
            GetBootstrapData em now req (s, w) =
              (case em_Sign em resp0
                      \<lparr>el_Manufacturer = cd_Manufacturer cd, el_SerialNumber = cd_SerialNumber cd\<rparr>
                      (GetSerialNumber (ControlCardState (snd req))) w' of
                 ((resp2, serr), w4) \<Rightarrow>
                   if serr \<noteq> None
                   then (Ret None (Some (Status Internal ''failed to sign bootz response'' [])), s', w4)
                   else (Ret (Some resp2) None, s', w4)))"
proof -
  let ?l = "\<lparr>el_Manufacturer = cd_Manufacturer cd, el_SerialNumber = cd_SerialNumber cd\<rparr>"
  let ?em0 = "em\<lparr>em_Sign := noSign\<rparr>"
  let ?s1 = "s\<lparr>connectedChassis := (connectedChassis s)(?l \<mapsto> True)\<rparr>"
  from GetBootstrapData_success_cases [OF assms refl]
  obtain v vs ch w1 errs rs w2 where
    cards: "ControlCards cd = v # vs" and
    res0: "em_ResolveChassis ?em0 ?l (cc_GetSerialNumber v) w = ((Some ch, None), w1)" and
    gate: "\<not> (BootMode ch = BOOT_MODE_SECURE \<and> Nonce (snd req) = [])" and
    loop0: "fetchCards ?em0 now req ?l ch (v # vs) (?s1, [], [], w1) = (True, s', errs, rs, w2)" and
    noerr: "Err_of errs = None"
    by blast
  have any: "GetBootstrapData (em\<lparr>em_Sign := f\<rparr>) now req (s, w) =
      (if Nonce (snd req) \<noteq> []
       then (case f \<lparr>SignedResponse = Some \<lparr>Responses = rs, sr_Nonce = Nonce (snd req)\<rparr>,
                     OwnershipVoucher = [], OwnershipCertificate = [], ResponseSignature = []\<rparr>
                    ?l (GetSerialNumber (ControlCardState (snd req))) w2 of
               ((resp2, serr), w4) \<Rightarrow>
                 if serr \<noteq> None
                 then (Ret None (Some (Status Internal ''failed to sign bootz response'' [])), s', w4)
                 else (Ret (Some resp2) None, s', w4))
       else (Ret (Some \<lparr>SignedResponse = Some \<lparr>Responses = rs, sr_Nonce = []\<rparr>,
                         OwnershipVoucher = [], OwnershipCertificate = [],
                         ResponseSignature = []\<rparr>) None, s', w2))" for f
  proof -
    let ?emf = "em\<lparr>em_Sign := f\<rparr>"
    have resf: "em_ResolveChassis ?emf ?l (cc_GetSerialNumber v) w = ((Some ch, None), w1)"
      using res0 by simp
    have "fetchCards ?emf now req ?l ch (v # vs) (?s1, [], [], w1) =
          fetchCards ?em0 now req ?l ch (v # vs) (?s1, [], [], w1)"
      by (rule fetchCards_cong) simp
    with loop0 have loopf:
      "fetchCards ?emf now req ?l ch (v # vs) (?s1, [], [], w1) = (True, s', errs, rs, w2)"
      by simp
    have sg: "em_Sign ?emf = f" by simp
    show ?thesis
      using GetBootstrapData_run [OF assms(2) cards refl resf gate loopf, unfolded sg] noerr
      by simp
  qed
  have em_self: "em\<lparr>em_Sign := em_Sign em\<rparr> = em" by simp
  show ?thesis
  proof (cases "Nonce (snd req) = []")
    case True
    from any [of noSign] assms(1) True
    have r0: "resp0 = \<lparr>SignedResponse = Some \<lparr>Responses = rs, sr_Nonce = []\<rparr>,
                OwnershipVoucher = [], OwnershipCertificate = [], ResponseSignature = []\<rparr>"
      and w: "w' = w2"
      by simp_all
    from any True r0 w show ?thesis by simp
  next
    case False
    from any [of noSign] assms(1) False
    have r0: "resp0 = \<lparr>SignedResponse = Some \<lparr>Responses = rs, sr_Nonce = Nonce (snd req)\<rparr>,
                OwnershipVoucher = [], OwnershipCertificate = [], ResponseSignature = []\<rparr>"
      and w: "w' = w2"
      by (simp_all add: noSign_def)
    from any [of "em_Sign em"] False r0 w show ?thesis
      unfolding em_self by simp
  qed
qed

theorem GetBootstrapData_signs_iff_nonce_witness:
  "(\<exists>resp0 s' w'.
      GetBootstrapData (demo_em BOOT_MODE_INSECURE\<lparr>em_Sign := noSign\<rparr>) demo_now
        (demo_req [''123A'', ''123B''] []) (New, 0) = (Ret (Some resp0) None, s', w') \<and>
      ResponseSignature resp0 = [] \<and>
      (\<forall>f. GetBootstrapData (demo_em BOOT_MODE_INSECURE\<lparr>em_Sign := f\<rparr>) demo_now
             (demo_req [''123A'', ''123B''] []) (New, 0) = (Ret (Some resp0) None, s', w'))) \<and>
   (\<exists>resp s' w' rs.
      GetBootstrapData (demo_em BOOT_MODE_INSECURE) demo_now
        (demo_req [''123A'', ''123B''] ''N1'') (New, 0) = (Ret (Some resp) None, s', w') \<and>
      ResponseSignature resp = ''c2lnbmVk'' \<and> OwnershipVoucher resp = ''ov_123A'' \<and>
      SignedResponse resp = Some \<lparr>Responses = rs, sr_Nonce = ''N1''\<rparr>) \<and>
   (\<exists>s' w'.
      GetBootstrapData (demo_em BOOT_MODE_INSECURE) demo_now
        (1, (snd (demo_req [''123A'', ''123B''] ''N1''))\<lparr>ControlCardState := None\<rparr>) (New, 0)
      = (Ret None (Some (Status Internal ''failed to sign bootz response'' [])), s', w'))"
proof -
  let ?em = "demo_em BOOT_MODE_INSECURE"
  let ?cd = "\<lparr>cd_Manufacturer = ''Cisco'', cd_SerialNumber = ''123'',
              ControlCards = [card ''123A'', card ''123B'']\<rparr>"
  let ?ra = "demo_req [''123A'', ''123B''] []"
  let ?rb = "demo_req [''123A'', ''123B''] ''N1''"
  let ?rc = "(1::nat, (snd (demo_req [''123A'', ''123B''] ''N1''))\<lparr>ControlCardState := None\<rparr>)"
  have cda: "ChassisDescriptor (snd ?ra) = Some ?cd" by (simp add: demo_req_def)
  have cdb: "ChassisDescriptor (snd ?rb) = Some ?cd" by (simp add: demo_req_def)
  have cdc: "ChassisDescriptor (snd ?rc) = Some ?cd" by (simp add: demo_req_def)
  have na: "Nonce (snd ?ra) = []" by (simp add: demo_req_def)
  have nb: "Nonce (snd ?rb) = ''N1''" by (simp add: demo_req_def)
  have nc: "Nonce (snd ?rc) = ''N1''" by (simp add: demo_req_def)
  have sb: "GetSerialNumber (ControlCardState (snd ?rb)) = ''123A''"
    by (simp add: demo_req_def GetSerialNumber_def)
  have sc: "GetSerialNumber (ControlCardState (snd ?rc)) = []"
    by (simp add: GetSerialNumber_def)
  have "\<exists>resp0 s' w'. GetBootstrapData (?em\<lparr>em_Sign := noSign\<rparr>) demo_now ?ra (New, 0)
          = (Ret (Some resp0) None, s', w')"
    by (simp add: GetBootstrapData_def demo_simps Add_def Err_of_def Let_def)
  then obtain ra sa wa where runa:
    "GetBootstrapData (?em\<lparr>em_Sign := noSign\<rparr>) demo_now ?ra (New, 0) = (Ret (Some ra) None, sa, wa)"
    by blast
  from GetBootstrapData_signs_iff_nonce [OF runa cda] na runa
  have a: "\<exists>resp0 s' w'.
      GetBootstrapData (?em\<lparr>em_Sign := noSign\<rparr>) demo_now ?ra (New, 0) = (Ret (Some resp0) None, s', w') \<and>
      ResponseSignature resp0 = [] \<and>
      (\<forall>f. GetBootstrapData (?em\<lparr>em_Sign := f\<rparr>) demo_now ?ra (New, 0) = (Ret (Some resp0) None, s', w'))"
    by blast
  have "\<exists>resp0 s' w'. GetBootstrapData (?em\<lparr>em_Sign := noSign\<rparr>) demo_now ?rb (New, 0)
          = (Ret (Some resp0) None, s', w')"
    by (simp add: GetBootstrapData_def demo_simps Add_def Err_of_def Let_def noSign_def)
  then obtain rb sb' wb where runb:
    "GetBootstrapData (?em\<lparr>em_Sign := noSign\<rparr>) demo_now ?rb (New, 0) = (Ret (Some rb) None, sb', wb)"
    by blast
  from GetBootstrapData_signs_iff_nonce [OF runb cdb] nb
  obtain rs where
    envb: "SignedResponse rb = Some \<lparr>Responses = rs, sr_Nonce = ''N1''\<rparr>" and
    resb: "GetBootstrapData ?em demo_now ?rb (New, 0) =
             (case em_Sign ?em rb \<lparr>el_Manufacturer = ''Cisco'', el_SerialNumber = ''123''\<rparr>
                     (GetSerialNumber (ControlCardState (snd ?rb))) wb of
                ((resp2, serr), w4) \<Rightarrow>
                  if serr \<noteq> None
                  then (Ret None (Some (Status Internal ''failed to sign bootz response'' [])), sb', w4)
                  else (Ret (Some resp2) None, sb', w4))"
    by auto
  have b: "\<exists>resp s' w' rs.
      GetBootstrapData ?em demo_now ?rb (New, 0) = (Ret (Some resp) None, s', w') \<and>
      ResponseSignature resp = ''c2lnbmVk'' \<and> OwnershipVoucher resp = ''ov_123A'' \<and>
      SignedResponse resp = Some \<lparr>Responses = rs, sr_Nonce = ''N1''\<rparr>"
    unfolding resb sb using envb by (simp add: demo_em_def known_card_def)
  have "\<exists>resp0 s' w'. GetBootstrapData (?em\<lparr>em_Sign := noSign\<rparr>) demo_now ?rc (New, 0)
          = (Ret (Some resp0) None, s', w')"
    by (simp add: GetBootstrapData_def demo_simps Add_def Err_of_def Let_def noSign_def)
  then obtain rc sc' wc where runc:
    "GetBootstrapData (?em\<lparr>em_Sign := noSign\<rparr>) demo_now ?rc (New, 0) = (Ret (Some rc) None, sc', wc)"
    by blast
  from GetBootstrapData_signs_iff_nonce [OF runc cdc] nc
  obtain rs' where
    envc: "SignedResponse rc = Some \<lparr>Responses = rs', sr_Nonce = ''N1''\<rparr>" and
    resc: "GetBootstrapData ?em demo_now ?rc (New, 0) =
             (case em_Sign ?em rc \<lparr>el_Manufacturer = ''Cisco'', el_SerialNumber = ''123''\<rparr>
                     (GetSerialNumber (ControlCardState (snd ?rc))) wc of
                ((resp2, serr), w4) \<Rightarrow>
                  if serr \<noteq> None
                  then (Ret None (Some (Status Internal ''failed to sign bootz response'' [])), sc', w4)
                  else (Ret (Some resp2) None, sc', w4))"
    by auto
  have c: "\<exists>s' w'. GetBootstrapData ?em demo_now ?rc (New, 0)
      = (Ret None (Some (Status Internal ''failed to sign bootz response'' [])), s', w')"
    unfolding resc sc using envc by (simp add: demo_em_def known_card_def)
  from a b c show ?thesis by blast
qed

end
